theory Spec2Isabelle
  imports Complex_Main
begin

section \<open>JavaScript values\<close>

text \<open>
  The handlers of \<^verbatim>\<open>server.js\<close> work on values parsed from JSON (the upstream body,
  with \<^verbatim>\<open>json: true\<close>) and on query parameters. A JSON value is a \<open>json\<close>; the
  JavaScript \<^verbatim>\<open>undefined\<close> (an absent property, an absent body) is \<open>None\<close> of
  \<open>json option\<close>. Numbers are exact rationals: the millisecond counts and status codes the
  service handles are integers far below \<open>2^53\<close>, where the double arithmetic of
  JavaScript is exact; \<^verbatim>\<open>NaN\<close> and the infinities are written out where the code can
  produce them. An object is the list of its own properties, read with \<open>map_of\<close>.
\<close>

datatype json =
    JNull
  | JBool bool
  | JNum rat
  | JStr string
  | JArr "json list"
  | JObj "(string \<times> json) list"

datatype js_error = TypeError

type_synonym obj = "string \<rightharpoonup> json"

text \<open>Truthiness, as \<^verbatim>\<open>!x\<close>, \<^verbatim>\<open>x || y\<close> and \<^verbatim>\<open>x && y\<close> test it.\<close>

fun truthy :: "json option \<Rightarrow> bool" where
  "truthy None = False"
| "truthy (Some JNull) = False"
| "truthy (Some (JBool b)) = b"
| "truthy (Some (JNum n)) = (n \<noteq> 0)"
| "truthy (Some (JStr s)) = (s \<noteq> [])"
| "truthy (Some (JArr xs)) = True"
| "truthy (Some (JObj kvs)) = True"

text \<open>\<^verbatim>\<open>typeof x === 'object'\<close>: true of \<^verbatim>\<open>null\<close>, of arrays and of objects.\<close>

fun typeof_object :: "json option \<Rightarrow> bool" where
  "typeof_object (Some JNull) = True"
| "typeof_object (Some (JArr xs)) = True"
| "typeof_object (Some (JObj kvs)) = True"
| "typeof_object _ = False"

text \<open>
  \<^verbatim>\<open>x.k\<close> on a value other than \<^verbatim>\<open>null\<close>, for the property names the handlers read
  (\<^verbatim>\<open>item\<close>, \<^verbatim>\<open>is_playing\<close>, \<^verbatim>\<open>progress_ms\<close>, \<^verbatim>\<open>timestamp\<close>,
  \<^verbatim>\<open>currently_playing_type\<close>, \<^verbatim>\<open>id\<close>, \<^verbatim>\<open>duration_ms\<close>): none of them is an array
  index or \<^verbatim>\<open>length\<close>, so only an object can have one.
\<close>

fun js_prop :: "json \<Rightarrow> string \<Rightarrow> json option" where
  "js_prop (JObj kvs) k = map_of kvs k"
| "js_prop _ k = None"

text \<open>
  \<^verbatim>\<open>a !== b\<close>. Primitives are compared by type and value. Objects and arrays are
  compared by reference, and the two sides of the one comparison in the handler come from
  two different parses, so they are never the same object.
\<close>

fun strict_neq :: "json option \<Rightarrow> json option \<Rightarrow> bool" where
  "strict_neq (Some (JArr xs)) b = True"
| "strict_neq (Some (JObj kvs)) b = True"
| "strict_neq a (Some (JArr ys)) = True"
| "strict_neq a (Some (JObj kvs)) = True"
| "strict_neq a b = (a \<noteq> b)"

text \<open>
  \<^verbatim>\<open>Number(x)\<close>, with \<open>None\<close> for \<^verbatim>\<open>NaN\<close>. The conversion of strings, arrays and
  objects (the parsing of numeric strings) is the parameter \<open>conv\<close>.
\<close>

fun js_Number :: "(json \<Rightarrow> rat option) \<Rightarrow> json option \<Rightarrow> rat option" where
  "js_Number conv None = None"
| "js_Number conv (Some JNull) = Some 0"
| "js_Number conv (Some (JBool b)) = Some (if b then 1 else 0)"
| "js_Number conv (Some (JNum n)) = Some n"
| "js_Number conv (Some v) = conv v"

text \<open>The decimal name of an array index, for the spread of an array.\<close>

definition digit :: "nat \<Rightarrow> char" where
  "digit d = char_of (of_char (CHR ''0'') + d)"

function decimal :: "nat \<Rightarrow> string" where
  "decimal n = (if n < 10 then [digit n] else decimal (n div 10) @ [digit (n mod 10)])"
  by pat_completeness auto
termination
  by (relation "measure (\<lambda>n. n)") auto

text \<open>
  The own enumerable properties that \<^verbatim>\<open>{ ...x }\<close> copies: those of an object, the
  indexed elements of an array, none of \<^verbatim>\<open>null\<close> or \<^verbatim>\<open>undefined\<close>.
\<close>

fun spread :: "json option \<Rightarrow> obj" where
  "spread (Some (JObj kvs)) = map_of kvs"
| "spread (Some (JArr xs)) = map_of (zip (map decimal [0..<length xs]) xs)"
| "spread _ = Map.empty"

definition startsWith :: "string \<Rightarrow> string \<Rightarrow> bool" where
  "startsWith s p = (take (length p) s = p)"

section \<open>The state store and the samples\<close>

text \<open>
  \<^verbatim>\<open>lastByToken\<close> maps an access token to the last accepted state, an object
  \<^verbatim>\<open>{ item, is_playing, progress_ms, timestamp, server_now, accepted_at, source_status }\<close>.
  The normalised sample has the first four fields and \<^verbatim>\<open>currently_playing_type\<close>.
  The order of the members of an object is not modelled.
\<close>

record playback =
  item :: json
  is_playing :: bool
  progress_ms :: rat
  timestamp :: rat

record sample = playback +
  currently_playing_type :: json

record entry = playback +
  server_now :: rat
  accepted_at :: rat
  source_status :: int

type_synonym store = "string \<rightharpoonup> entry"

definition entry_obj :: "entry \<Rightarrow> obj" where
  "entry_obj e =
     [''item'' \<mapsto> item e,
      ''is_playing'' \<mapsto> JBool (is_playing e),
      ''progress_ms'' \<mapsto> JNum (progress_ms e),
      ''timestamp'' \<mapsto> JNum (timestamp e),
      ''server_now'' \<mapsto> JNum (server_now e),
      ''accepted_at'' \<mapsto> JNum (accepted_at e),
      ''source_status'' \<mapsto> JNum (of_int (source_status e))]"

text \<open>
  The sample of an upstream body (lines 154 to 160 of \<^verbatim>\<open>server.js\<close>). Reading
  \<^verbatim>\<open>body.item\<close> of \<^verbatim>\<open>null\<close> (or of \<^verbatim>\<open>undefined\<close>) throws.
\<close>

fun or_null :: "json option \<Rightarrow> json" where
  "or_null (Some v) = (if truthy (Some v) then v else JNull)"
| "or_null None = JNull"

definition sample_of :: "json \<Rightarrow> rat \<Rightarrow> sample" where
  "sample_of b now =
     \<lparr> item = or_null (js_prop b ''item''),
       is_playing = truthy (js_prop b ''is_playing''),
       progress_ms = (case js_prop b ''progress_ms'' of Some (JNum n) \<Rightarrow> n | _ \<Rightarrow> 0),
       timestamp = (case js_prop b ''timestamp'' of Some (JNum n) \<Rightarrow> n | _ \<Rightarrow> now),
       currently_playing_type = or_null (js_prop b ''currently_playing_type'') \<rparr>"

fun normalize :: "json option \<Rightarrow> rat \<Rightarrow> js_error + sample" where
  "normalize None now = Inl TypeError"
| "normalize (Some JNull) now = Inl TypeError"
| "normalize (Some b) now = Inr (sample_of b now)"

section \<open>The two guards of stable mode\<close>

text \<open>
  Guard 1 (line 165): \<^verbatim>\<open>last && sample.timestamp + 1000 < last.timestamp\<close>. The stored
  state is called \<open>prev\<close> here (\<^verbatim>\<open>last\<close> in the source).
\<close>

definition stale :: "entry option \<Rightarrow> sample \<Rightarrow> bool" where
  "stale prev s = (case prev of None \<Rightarrow> False | Some l \<Rightarrow> timestamp s + 1000 < timestamp l)"

text \<open>
  Guard 2 (lines 170 to 179), with the local constants of the source.
  \<^verbatim>\<open>(last.item && Number(last.item.duration_ms)) || 0\<close> is read where \<^verbatim>\<open>last.item\<close> is
  truthy; \<^verbatim>\<open>NaN || 0\<close> and \<^verbatim>\<open>0 || 0\<close> are 0.
\<close>

definition prevDuration :: "(json \<Rightarrow> rat option) \<Rightarrow> entry \<Rightarrow> rat" where
  "prevDuration conv l =
     (case js_Number conv (js_prop (item l) ''duration_ms'') of None \<Rightarrow> 0 | Some d \<Rightarrow> d)"

text \<open>\<^verbatim>\<open>server_now - (last.accepted_at || server_now)\<close>: a zero \<^verbatim>\<open>accepted_at\<close> is falsy.\<close>

definition elapsed :: "entry \<Rightarrow> rat \<Rightarrow> rat" where
  "elapsed l now = now - (if accepted_at l \<noteq> 0 then accepted_at l else now)"

text \<open>
  \<^verbatim>\<open>Math.min(last.progress_ms + elapsed, prevDuration || Infinity)\<close>: with no duration the
  minimum is taken with \<^verbatim>\<open>Infinity\<close> and is its first argument.
\<close>

definition estLocal :: "(json \<Rightarrow> rat option) \<Rightarrow> entry \<Rightarrow> rat \<Rightarrow> rat" where
  "estLocal conv l now =
     (if is_playing l
      then (if prevDuration conv l \<noteq> 0
            then min (progress_ms l + elapsed l now) (prevDuration conv l)
            else progress_ms l + elapsed l now)
      else progress_ms l)"

definition nearEnd :: "(json \<Rightarrow> rat option) \<Rightarrow> entry \<Rightarrow> rat \<Rightarrow> bool" where
  "nearEnd conv l now =
     (prevDuration conv l > 0 \<and> estLocal conv l now / prevDuration conv l \<ge> 92 / 100)"

definition newIsYoung :: "sample \<Rightarrow> bool" where
  "newIsYoung s = (progress_ms s < 1200)"

definition track_changed :: "entry option \<Rightarrow> sample \<Rightarrow> bool" where
  "track_changed prev s =
     (case prev of None \<Rightarrow> False
      | Some l \<Rightarrow> truthy (Some (item l)) \<and> truthy (Some (item s)) \<and>
          strict_neq (js_prop (item l) ''id'') (js_prop (item s) ''id''))"

definition early_switch :: "(json \<Rightarrow> rat option) \<Rightarrow> entry option \<Rightarrow> sample \<Rightarrow> rat \<Rightarrow> bool" where
  "early_switch conv prev s now =
     (case prev of None \<Rightarrow> False
      | Some l \<Rightarrow> track_changed prev s \<and> \<not> nearEnd conv l now \<and> newIsYoung s)"

section \<open>The handler of /now-playing\<close>

record reply =
  http_status :: int
  no_store :: bool
  payload :: obj

record upstream =
  error :: bool
  response :: "int option"
  body :: "json option"

record query =
  access_token :: "string option"
  stable :: "string option"

record result =
  reply :: reply
  lastByToken :: store
  upstream_called :: bool

text \<open>\<^verbatim>\<open>setNoStore(res); return res.status(c).json(p)\<close>\<close>

definition respond :: "int \<Rightarrow> obj \<Rightarrow> reply" where
  "respond c p = \<lparr> http_status = c, no_store = True, payload = p \<rparr>"

text \<open>\<^verbatim>\<open>(response && response.statusCode) || 500\<close>\<close>

definition status_of :: "upstream \<Rightarrow> int" where
  "status_of up = (case response up of None \<Rightarrow> 500 | Some c \<Rightarrow> if c \<noteq> 0 then c else 500)"

definition nothingPlaying :: "rat \<Rightarrow> int \<Rightarrow> obj" where
  "nothingPlaying now status =
     [''item'' \<mapsto> JNull,
      ''is_playing'' \<mapsto> JBool False,
      ''progress_ms'' \<mapsto> JNum 0,
      ''timestamp'' \<mapsto> JNum now,
      ''server_now'' \<mapsto> JNum now,
      ''source_status'' \<mapsto> JNum (of_int status)]"

text \<open>\<^verbatim>\<open>{ ...nothingPlaying, accepted_at: server_now }\<close>, as the store keeps it.\<close>

definition nothing_entry :: "rat \<Rightarrow> int \<Rightarrow> entry" where
  "nothing_entry now status =
     \<lparr> item = JNull, is_playing = False, progress_ms = 0, timestamp = now,
       server_now = now, accepted_at = now, source_status = status \<rparr>"

definition accepted :: "sample \<Rightarrow> rat \<Rightarrow> entry" where
  "accepted s now =
     \<lparr> item = item s, is_playing = is_playing s, progress_ms = progress_ms s,
       timestamp = timestamp s, server_now = now, accepted_at = now, source_status = 200 \<rparr>"

text \<open>
  The callback of the upstream request (lines 113 to 192). It returns the reply and the
  store after it, or the exception it throws.
\<close>

definition passthrough :: "rat \<Rightarrow> upstream \<Rightarrow> reply" where
  "passthrough now up =
     (let status = status_of up in
      if error up then respond 200 (nothingPlaying now status)
      else if status = 204
        then respond 200 ((nothingPlaying now status)(''source_status'' \<mapsto> JNum 204))
      else if status \<noteq> 200 \<or> \<not> typeof_object (body up)
        then respond 200 ((nothingPlaying now status)(''error'' \<mapsto> JStr ''spotify_non_200''))
      else respond 200 ((spread (body up))(''server_now'' \<mapsto> JNum now)))"

definition stable_mode ::
  "(json \<Rightarrow> rat option) \<Rightarrow> store \<Rightarrow> string \<Rightarrow> rat \<Rightarrow> upstream \<Rightarrow> js_error + reply \<times> store" where
  "stable_mode conv st tok now up =
     (let status = status_of up in
      if error up then Inr (respond 200 (nothingPlaying now status), st)
      else if status = 204
        then Inr (respond 200 (nothingPlaying now status), st(tok \<mapsto> nothing_entry now status))
      else if status \<noteq> 200 \<or> \<not> typeof_object (body up)
        then Inr (respond 200 ((nothingPlaying now status)(''error'' \<mapsto> JStr ''spotify_non_200'')), st)
      else
        (case normalize (body up) now of
           Inl e \<Rightarrow> Inl e
         | Inr s \<Rightarrow>
            (case st tok of
               Some l \<Rightarrow>
                 if stale (Some l) s
                   then Inr (respond 200 ((entry_obj l)(''server_now'' \<mapsto> JNum now,
                                ''stale_guard'' \<mapsto> JBool True)), st)
                 else if early_switch conv (Some l) s now
                   then Inr (respond 200 ((entry_obj l)(''server_now'' \<mapsto> JNum now,
                                ''early_switch_suppressed'' \<mapsto> JBool True)), st)
                 else Inr (respond 200 (entry_obj (accepted s now)), st(tok \<mapsto> accepted s now))
             | None \<Rightarrow>
                 Inr (respond 200 (entry_obj (accepted s now)), st(tok \<mapsto> accepted s now)))))"

text \<open>
  The handler (lines 94 to 193). \<open>now\<close> is the \<^verbatim>\<open>Date.now()\<close> it takes, \<open>up\<close> what the
  upstream request gives its callback. A query parameter is absent or a string; \<^verbatim>\<open>!s\<close>
  is true of the absent and of the empty one.
\<close>

definition now_playing ::
  "(json \<Rightarrow> rat option) \<Rightarrow> store \<Rightarrow> query \<Rightarrow> rat \<Rightarrow> upstream \<Rightarrow> js_error + result" where
  "now_playing conv st q now up =
     (case access_token q of
        None \<Rightarrow> Inr \<lparr> reply = respond 400 [''error'' \<mapsto> JStr ''Missing access token''],
                      lastByToken = st, upstream_called = False \<rparr>
      | Some tok \<Rightarrow>
          if tok = [] then Inr \<lparr> reply = respond 400 [''error'' \<mapsto> JStr ''Missing access token''],
                                lastByToken = st, upstream_called = False \<rparr>
          else if stable q \<noteq> Some ''1''
            then Inr \<lparr> reply = passthrough now up, lastByToken = st, upstream_called = True \<rparr>
          else
            (case stable_mode conv st tok now up of
               Inl e \<Rightarrow> Inl e
             | Inr (r, st') \<Rightarrow> Inr \<lparr> reply = r, lastByToken = st', upstream_called = True \<rparr>))"

section \<open>The handlers of /login\<close>

text \<open>
  The query string of the redirect to \<^verbatim>\<open>https://accounts.spotify.com/authorize\<close>, before
  \<^verbatim>\<open>querystring.stringify\<close>. The \<^verbatim>\<open>state\<close> is the nonce in \<^verbatim>\<open>server.js\<close> and
  \<^verbatim>\<open>JSON.stringify({ n: nonce, ret })\<close> in the version that takes \<^verbatim>\<open>?return=\<close>
  (\<^verbatim>\<open>src/unnamed/part_001\<close>, from line 116). The nonce is the string that
  \<^verbatim>\<open>generateRandomString(16)\<close> returns; the client id and the redirect URI are those of
  the environment.
\<close>

datatype state_param = Nonce string | NonceRet string string

record authorize =
  response_type :: string
  client_id :: string
  scope :: string
  redirect_uri :: string
  state :: state_param
  show_dialog :: bool

record env =
  SPOTIFY_CLIENT_ID :: string
  REDIRECT_URI :: string

definition login :: "env \<Rightarrow> string \<Rightarrow> json option \<Rightarrow> authorize" where
  "login ev nonce ret_param =
     \<lparr> response_type = ''code'',
       client_id = SPOTIFY_CLIENT_ID ev,
       scope = ''user-read-playback-state user-read-currently-playing'',
       redirect_uri = REDIRECT_URI ev,
       state = Nonce nonce,
       show_dialog = True \<rparr>"

text \<open>
  \<^verbatim>\<open>ret.trim()\<close> strips white space at both ends; of the characters a \<open>char\<close> can be,
  these are tab, line feed, vertical tab, form feed, carriage return, space and the
  no-break space.
\<close>

definition js_space :: "char \<Rightarrow> bool" where
  "js_space c = (of_char c \<in> {9, 10, 11, 12, 13, 32, 160 :: nat})"

definition trim :: "string \<Rightarrow> string" where
  "trim s = rev (dropWhile js_space (rev (dropWhile js_space s)))"

definition sanitizeReturnPath :: "json option \<Rightarrow> string" where
  "sanitizeReturnPath ret =
     (case ret of
        Some (JStr s) \<Rightarrow>
          if trim s = [] then ''/spotify-overlay''
          else if \<not> startsWith s ''/'' then ''/spotify-overlay''
          else if startsWith s ''//'' then ''/spotify-overlay''
          else s
      | _ \<Rightarrow> ''/spotify-overlay'')"

text \<open>\<^verbatim>\<open>sanitizeReturnPath(req.query.return || '/spotify-overlay')\<close>\<close>

definition login_return :: "env \<Rightarrow> string \<Rightarrow> json option \<Rightarrow> authorize" where
  "login_return ev nonce ret_param =
     (let ret = sanitizeReturnPath
                  (if truthy ret_param then ret_param else Some (JStr ''/spotify-overlay''))
      in \<lparr> response_type = ''code'',
           client_id = SPOTIFY_CLIENT_ID ev,
           scope = ''user-read-playback-state user-read-currently-playing'',
           redirect_uri = REDIRECT_URI ev,
           state = NonceRet nonce ret,
           show_dialog = True \<rparr>)"

section \<open>Example requests\<close>

text \<open>
  Concrete inputs for the instances below: a track object, an upstream body that plays
  it, the two kinds of query, some upstream outcomes, and a state as the accept path
  stores it. \<open>no_conv\<close> makes \<^verbatim>\<open>Number\<close> of a string, an array or an object
  \<^verbatim>\<open>NaN\<close>; no example reads it.
\<close>

definition no_conv :: "json \<Rightarrow> rat option" where
  "no_conv v = None"

definition track :: "string \<Rightarrow> rat \<Rightarrow> json" where
  "track i d = JObj [(''id'', JStr i), (''duration_ms'', JNum d)]"

definition playing :: "json \<Rightarrow> rat \<Rightarrow> rat \<Rightarrow> json" where
  "playing it p t =
     JObj [(''item'', it), (''is_playing'', JBool True), (''progress_ms'', JNum p),
           (''timestamp'', JNum t)]"

definition stable_q :: "string \<Rightarrow> query" where
  "stable_q tok = \<lparr> access_token = Some tok, stable = Some ''1'' \<rparr>"

definition plain_q :: "string \<Rightarrow> query" where
  "plain_q tok = \<lparr> access_token = Some tok, stable = None \<rparr>"

definition upstream_200 :: "json \<Rightarrow> upstream" where
  "upstream_200 b = \<lparr> error = False, response = Some 200, body = Some b \<rparr>"

definition upstream_204 :: upstream where
  "upstream_204 = \<lparr> error = False, response = Some 204, body = None \<rparr>"

definition transport_error :: upstream where
  "transport_error = \<lparr> error = True, response = None, body = None \<rparr>"

definition held :: "json \<Rightarrow> rat \<Rightarrow> rat \<Rightarrow> rat \<Rightarrow> entry" where
  "held it p t a =
     \<lparr> item = it, is_playing = True, progress_ms = p, timestamp = t,
       server_now = a, accepted_at = a, source_status = 200 \<rparr>"

section \<open>Unfolding the handler\<close>

lemma now_playing_stable:
  "access_token q = Some tok \<Longrightarrow> tok \<noteq> [] \<Longrightarrow> stable q = Some ''1'' \<Longrightarrow>
     now_playing conv st q now up =
       (case stable_mode conv st tok now up of
          Inl e \<Rightarrow> Inl e
        | Inr (r, st') \<Rightarrow> Inr \<lparr> reply = r, lastByToken = st', upstream_called = True \<rparr>)"
  by (simp add: now_playing_def)

lemma stable_mode_sample:
  "\<not> error up \<Longrightarrow> status_of up = 200 \<Longrightarrow> typeof_object (body up) \<Longrightarrow>
   normalize (body up) now = Inr s \<Longrightarrow>
     stable_mode conv st tok now up =
       (case st tok of
          Some l \<Rightarrow>
            if stale (Some l) s
              then Inr (respond 200 ((entry_obj l)(''server_now'' \<mapsto> JNum now,
                           ''stale_guard'' \<mapsto> JBool True)), st)
            else if early_switch conv (Some l) s now
              then Inr (respond 200 ((entry_obj l)(''server_now'' \<mapsto> JNum now,
                           ''early_switch_suppressed'' \<mapsto> JBool True)), st)
            else Inr (respond 200 (entry_obj (accepted s now)), st(tok \<mapsto> accepted s now))
        | None \<Rightarrow> Inr (respond 200 (entry_obj (accepted s now)), st(tok \<mapsto> accepted s now)))"
  by (simp add: stable_mode_def)

lemma nearEnd_eq:
  "accepted_at l \<noteq> 0 \<Longrightarrow>
   nearEnd conv l now =
     (prevDuration conv l > 0 \<and>
      (if is_playing l then min (progress_ms l + (now - accepted_at l)) (prevDuration conv l)
       else progress_ms l) / prevDuration conv l \<ge> 92 / 100)"
  by (auto simp add: nearEnd_def estLocal_def elapsed_def)

lemma entry_obj_no_flag:
  "entry_obj e ''early_switch_suppressed'' = None" "entry_obj e ''stale_guard'' = None"
  by (simp_all add: entry_obj_def)

lemma stable_mode_cases:
  "stable_mode conv st tok now up = Inr (rp, st') \<Longrightarrow>
     st' = st \<or>
     (\<not> error up \<and> status_of up = 204 \<and> st' = st(tok \<mapsto> nothing_entry now 204)) \<or>
     (\<exists>s. \<not> error up \<and> status_of up = 200 \<and> typeof_object (body up) \<and>
          normalize (body up) now = Inr s \<and> \<not> stale (st tok) s \<and>
          \<not> early_switch conv (st tok) s now \<and> st' = st(tok \<mapsto> accepted s now))"
  by (auto simp add: stable_mode_def Let_def stale_def early_switch_def
      split: if_splits sum.splits option.splits)

lemma now_playing_cases:
  "now_playing conv st q now up = Inr r \<Longrightarrow>
     lastByToken r = st \<or>
     (\<exists>tok. access_token q = Some tok \<and> tok \<noteq> [] \<and> stable q = Some ''1'' \<and>
        ((\<not> error up \<and> status_of up = 204 \<and> lastByToken r = st(tok \<mapsto> nothing_entry now 204)) \<or>
         (\<exists>s. \<not> error up \<and> status_of up = 200 \<and> typeof_object (body up) \<and>
            normalize (body up) now = Inr s \<and> \<not> stale (st tok) s \<and>
            \<not> early_switch conv (st tok) s now \<and> lastByToken r = st(tok \<mapsto> accepted s now))))"
  apply (cases "access_token q")
   apply (auto simp add: now_playing_def split: if_splits sum.splits dest!: stable_mode_cases)
  done

lemma nothingPlaying_fields:
  "nothingPlaying now c ''item'' = Some JNull"
  "nothingPlaying now c ''is_playing'' = Some (JBool False)"
  "nothingPlaying now c ''progress_ms'' = Some (JNum 0)"
  "nothingPlaying now c ''source_status'' = Some (JNum (of_int c))"
  "nothingPlaying now c ''stale_guard'' = None"
  "nothingPlaying now c ''early_switch_suppressed'' = None"
  by (simp_all add: nothingPlaying_def)

lemma stable_mode_replies:
  "stable_mode conv st tok now up = Inr (rp, st') \<Longrightarrow>
     (error up \<or> status_of up \<noteq> 204 \<and> (status_of up \<noteq> 200 \<or> \<not> typeof_object (body up))) \<and>
       st' = st \<and> http_status rp = 200 \<and>
       payload rp ''item'' = Some JNull \<and> payload rp ''is_playing'' = Some (JBool False) \<and>
       payload rp ''progress_ms'' = Some (JNum 0) \<and>
       payload rp ''stale_guard'' = None \<and> payload rp ''early_switch_suppressed'' = None
     \<or>
     \<not> error up \<and> status_of up = 204 \<and> st' = st(tok \<mapsto> nothing_entry now 204) \<and>
       rp = respond 200 (nothingPlaying now 204)
     \<or>
     (\<exists>s. \<not> error up \<and> status_of up = 200 \<and> typeof_object (body up) \<and>
        normalize (body up) now = Inr s \<and>
        ((\<exists>l. st tok = Some l \<and> stale (Some l) s \<and> st' = st \<and>
            rp = respond 200 ((entry_obj l)(''server_now'' \<mapsto> JNum now,
                                ''stale_guard'' \<mapsto> JBool True))) \<or>
         (\<exists>l. st tok = Some l \<and> \<not> stale (Some l) s \<and> early_switch conv (Some l) s now \<and>
            st' = st \<and>
            rp = respond 200 ((entry_obj l)(''server_now'' \<mapsto> JNum now,
                                ''early_switch_suppressed'' \<mapsto> JBool True))) \<or>
         (\<not> stale (st tok) s \<and> \<not> early_switch conv (st tok) s now \<and>
            st' = st(tok \<mapsto> accepted s now) \<and>
            rp = respond 200 (entry_obj (accepted s now)))))"
  by (auto simp add: stable_mode_def Let_def stale_def early_switch_def respond_def
      nothingPlaying_fields split: if_splits sum.splits option.splits)

lemma now_playing_stable_Inr:
  assumes "access_token q = Some tok" and "tok \<noteq> []" and "stable q = Some ''1''"
    and "now_playing conv st q now up = Inr r"
  shows "stable_mode conv st tok now up = Inr (reply r, lastByToken r)"
  using assms by (auto simp add: now_playing_stable split: sum.splits)

lemma now_playing_passthrough:
  "access_token q = Some tok \<Longrightarrow> tok \<noteq> [] \<Longrightarrow> stable q \<noteq> Some ''1'' \<Longrightarrow>
     now_playing conv st q now up =
       Inr \<lparr> reply = passthrough now up, lastByToken = st, upstream_called = True \<rparr>"
  by (simp add: now_playing_def)

lemma now_playing_missing:
  "access_token q = None \<or> access_token q = Some [] \<Longrightarrow>
     now_playing conv st q now up =
       Inr \<lparr> reply = respond 400 [''error'' \<mapsto> JStr ''Missing access token''],
             lastByToken = st, upstream_called = False \<rparr>"
  by (auto simp add: now_playing_def)

lemma passthrough_status: "http_status (passthrough now up) = 200"
  by (simp add: passthrough_def Let_def respond_def)

lemma stable_mode_status:
  "stable_mode conv st tok now up = Inr (rp, st') \<Longrightarrow> http_status rp = 200"
  by (auto simp add: stable_mode_def Let_def respond_def
      split: if_splits sum.splits option.splits)

lemma trim_slash: "startsWith s ''/'' \<Longrightarrow> trim s \<noteq> []"
proof -
  assume a: "startsWith s ''/''"
  then obtain t where s: "s = CHR ''/'' # t"
    by (cases s) (auto simp add: startsWith_def)
  have ns: "\<not> js_space CHR ''/''" by (simp add: js_space_def)
  have "dropWhile js_space s = s" using s ns by simp
  moreover have "dropWhile js_space (rev s) \<noteq> []"
    using s ns by auto
  ultimately show ?thesis by (simp add: trim_def)
qed

lemma sanitize_string:
  "sanitizeReturnPath (Some (JStr s)) =
     (if startsWith s ''/'' \<and> \<not> startsWith s ''//'' then s else ''/spotify-overlay'')"
  by (auto simp add: sanitizeReturnPath_def dest: trim_slash)

lemma sanitize_other:
  "(\<forall>s. v \<noteq> Some (JStr s)) \<Longrightarrow> sanitizeReturnPath v = ''/spotify-overlay''"
  by (cases v) (auto simp add: sanitizeReturnPath_def split: json.splits)

lemma startsWith_fallback:
  "startsWith ''/spotify-overlay'' ''/''" "\<not> startsWith ''/spotify-overlay'' ''//''"
  by (simp_all add: startsWith_def)

lemma entry_obj_members:
  "entry_obj e ''item'' = Some (item e)"
  "entry_obj e ''is_playing'' = Some (JBool (is_playing e))"
  "entry_obj e ''progress_ms'' = Some (JNum (progress_ms e))"
  "entry_obj e ''timestamp'' = Some (JNum (timestamp e))"
  "entry_obj e ''server_now'' = Some (JNum (server_now e))"
  "entry_obj e ''accepted_at'' = Some (JNum (accepted_at e))"
  "entry_obj e ''source_status'' = Some (JNum (of_int (source_status e)))"
  by (simp_all add: entry_obj_def)

lemma entry_obj_others:
  "k \<noteq> ''item'' \<Longrightarrow> k \<noteq> ''is_playing'' \<Longrightarrow> k \<noteq> ''progress_ms'' \<Longrightarrow> k \<noteq> ''timestamp'' \<Longrightarrow>
   k \<noteq> ''server_now'' \<Longrightarrow> k \<noteq> ''accepted_at'' \<Longrightarrow> k \<noteq> ''source_status'' \<Longrightarrow>
   entry_obj e k = None"
  by (simp add: entry_obj_def)

lemmas fixtures = stable_q_def plain_q_def upstream_200_def upstream_204_def
  transport_error_def status_of_def playing_def sample_of_def held_def track_def
  prevDuration_def

section \<open>The progress of a sample\<close>

text \<open>
  C6, as the code has it. The sample's \<^verbatim>\<open>progress_ms\<close> is the body's when the body's
  is a number, of either sign, and 0 when it is anything else or absent: the test is
  \<^verbatim>\<open>typeof body.progress_ms === 'number'\<close> alone. The handler does not clamp it either.
  In stable mode, a sample that the two guards let through is stored and answered with
  that same progress; a sample that a guard rejects is answered with the progress of the
  stored state, as stored.
\<close>

theorem progress_not_clamped:
  assumes "b \<noteq> JNull"
  shows
    "\<exists>s. normalize (Some b) now = Inr s \<and>
       progress_ms s = (case js_prop b ''progress_ms'' of Some (JNum n) \<Rightarrow> n | _ \<Rightarrow> 0) \<and>
       (access_token q = Some tok \<and> tok \<noteq> [] \<and> stable q = Some ''1'' \<and> \<not> error up \<and>
        status_of up = 200 \<and> body up = Some b \<and> typeof_object (body up) \<and>
        \<not> stale (st tok) s \<and> \<not> early_switch conv (st tok) s now \<longrightarrow>
        (\<exists>r e. now_playing conv st q now up = Inr r \<and>
           http_status (reply r) = 200 \<and>
           payload (reply r) ''progress_ms'' =
             Some (JNum (case js_prop b ''progress_ms'' of Some (JNum n) \<Rightarrow> n | _ \<Rightarrow> 0)) \<and>
           lastByToken r tok = Some e \<and>
           progress_ms e = (case js_prop b ''progress_ms'' of Some (JNum n) \<Rightarrow> n | _ \<Rightarrow> 0))) \<and>
       (access_token q = Some tok \<and> tok \<noteq> [] \<and> stable q = Some ''1'' \<and> \<not> error up \<and>
        status_of up = 200 \<and> body up = Some b \<and> typeof_object (body up) \<and>
        (stale (st tok) s \<or> early_switch conv (st tok) s now) \<longrightarrow>
        (\<exists>r l. now_playing conv st q now up = Inr r \<and> st tok = Some l \<and>
           lastByToken r = st \<and>
           payload (reply r) ''progress_ms'' = Some (JNum (progress_ms l))))"
proof -
  have n: "normalize (Some b) now = Inr (sample_of b now)"
    using assms by (cases b) simp_all
  have p: "progress_ms (sample_of b now) =
             (case js_prop b ''progress_ms'' of Some (JNum n) \<Rightarrow> n | _ \<Rightarrow> 0)"
    by (simp add: sample_of_def)
  have a: "access_token q = Some tok \<and> tok \<noteq> [] \<and> stable q = Some ''1'' \<and> \<not> error up \<and>
        status_of up = 200 \<and> body up = Some b \<and> typeof_object (body up) \<and>
        \<not> stale (st tok) (sample_of b now) \<and>
        \<not> early_switch conv (st tok) (sample_of b now) now \<longrightarrow>
        now_playing conv st q now up =
          Inr \<lparr> reply = respond 200 (entry_obj (accepted (sample_of b now) now)),
                lastByToken = st(tok \<mapsto> accepted (sample_of b now) now),
                upstream_called = True \<rparr>"
    using n by (cases "st tok") (auto simp add: now_playing_stable stable_mode_sample)
  have g: "access_token q = Some tok \<and> tok \<noteq> [] \<and> stable q = Some ''1'' \<and> \<not> error up \<and>
        status_of up = 200 \<and> body up = Some b \<and> typeof_object (body up) \<and>
        (stale (st tok) (sample_of b now) \<or>
         early_switch conv (st tok) (sample_of b now) now) \<longrightarrow>
        (\<exists>r l. now_playing conv st q now up = Inr r \<and> st tok = Some l \<and>
           lastByToken r = st \<and>
           payload (reply r) ''progress_ms'' = Some (JNum (progress_ms l)))"
    using n
    by (cases "st tok")
       (auto simp add: now_playing_stable stable_mode_sample respond_def entry_obj_members
          stale_def early_switch_def)
  have pa: "progress_ms (accepted (sample_of b now) now) = progress_ms (sample_of b now)"
    by (simp add: accepted_def)
  have c: "access_token q = Some tok \<and> tok \<noteq> [] \<and> stable q = Some ''1'' \<and> \<not> error up \<and>
        status_of up = 200 \<and> body up = Some b \<and> typeof_object (body up) \<and>
        \<not> stale (st tok) (sample_of b now) \<and>
        \<not> early_switch conv (st tok) (sample_of b now) now \<longrightarrow>
        (\<exists>r e. now_playing conv st q now up = Inr r \<and>
           http_status (reply r) = 200 \<and>
           payload (reply r) ''progress_ms'' =
             Some (JNum (case js_prop b ''progress_ms'' of Some (JNum n) \<Rightarrow> n | _ \<Rightarrow> 0)) \<and>
           lastByToken r tok = Some e \<and>
           progress_ms e = (case js_prop b ''progress_ms'' of Some (JNum n) \<Rightarrow> n | _ \<Rightarrow> 0))"
    using a by (auto simp add: p pa respond_def entry_obj_members)
  from n p c g show ?thesis by blast
qed

text \<open>A body with \<^verbatim>\<open>progress_ms: -5\<close>, in stable mode, with nothing stored.\<close>

theorem progress_not_clamped_witness:
  "\<exists>r e. now_playing no_conv Map.empty (stable_q ''t'') 1000
            (upstream_200 (playing (track ''A'' 200000) (- 5) 1000)) = Inr r \<and>
         http_status (reply r) = 200 \<and>
         payload (reply r) ''progress_ms'' = Some (JNum (- 5)) \<and>
         lastByToken r ''t'' = Some e \<and> progress_ms e = - 5"
  using progress_not_clamped [of "playing (track ''A'' 200000) (- 5) 1000" 1000
      "stable_q ''t''" "''t''" "upstream_200 (playing (track ''A'' 200000) (- 5) 1000)"
      Map.empty no_conv]
  by (simp add: stable_q_def upstream_200_def status_of_def playing_def stale_def
      early_switch_def)

text \<open>
  C6 as it is stated fails: that body gives a sample whose progress is \<open>-5\<close>, not 0, and
  the handler stores and answers \<open>-5\<close>.
\<close>

theorem negative_progress_counterexample:
  "normalize (Some (playing (track ''A'' 200000) (- 5) 1000)) 1000 =
     Inr \<lparr> item = track ''A'' 200000, is_playing = True, progress_ms = - 5, timestamp = 1000,
           currently_playing_type = JNull \<rparr> \<and>
   now_playing no_conv Map.empty (stable_q ''t'') 1000
       (upstream_200 (playing (track ''A'' 200000) (- 5) 1000)) =
     Inr \<lparr> reply = respond 200 (entry_obj (held (track ''A'' 200000) (- 5) 1000 1000)),
           lastByToken = [''t'' \<mapsto> held (track ''A'' 200000) (- 5) 1000 1000],
           upstream_called = True \<rparr> \<and>
   entry_obj (held (track ''A'' 200000) (- 5) 1000 1000) ''progress_ms'' = Some (JNum (- 5)) \<and>
   progress_ms (held (track ''A'' 200000) (- 5) 1000 1000) = - 5 \<and>
   progress_ms (held (track ''A'' 200000) (- 5) 1000 1000) \<noteq> 0 \<and>
   (- 5 :: rat) < 0"
  by (simp add: now_playing_def stable_mode_def stale_def early_switch_def accepted_def
      entry_obj_def fixtures)

section \<open>The stale-sample guard\<close>

text \<open>
  C2: in stable mode, when the upstream answers 200 with a body that gives the sample
  \<open>s\<close>, a state \<open>l\<close> is stored for the token and
  \<open>timestamp s + 1000 < timestamp l\<close>, the handler answers 200 with the state \<open>l\<close>:
  the payload has the \<^verbatim>\<open>item\<close>, \<^verbatim>\<open>is_playing\<close>, \<^verbatim>\<open>progress_ms\<close>,
  \<^verbatim>\<open>timestamp\<close>, \<^verbatim>\<open>accepted_at\<close> and \<^verbatim>\<open>source_status\<close> of \<open>l\<close>,
  \<^verbatim>\<open>server_now\<close> set to the time of this request, \<^verbatim>\<open>stale_guard: true\<close>, and no
  other member; the store is not written. Nothing is assumed of the tracks or of the
  progress: the check comes before the early-switch guard.
\<close>

theorem stale_guard_rejects:
  assumes "access_token q = Some tok" and "tok \<noteq> []" and "stable q = Some ''1''"
    and "\<not> error up" and "status_of up = 200" and "typeof_object (body up)"
    and "normalize (body up) now = Inr s"
    and "st tok = Some l"
    and "timestamp s + 1000 < timestamp l"
  shows "\<exists>r. now_playing conv st q now up = Inr r \<and>
           http_status (reply r) = 200 \<and> no_store (reply r) \<and>
           lastByToken r = st \<and> upstream_called r \<and>
           payload (reply r) ''item'' = Some (item l) \<and>
           payload (reply r) ''is_playing'' = Some (JBool (is_playing l)) \<and>
           payload (reply r) ''progress_ms'' = Some (JNum (progress_ms l)) \<and>
           payload (reply r) ''timestamp'' = Some (JNum (timestamp l)) \<and>
           payload (reply r) ''accepted_at'' = Some (JNum (accepted_at l)) \<and>
           payload (reply r) ''source_status'' = Some (JNum (of_int (source_status l))) \<and>
           payload (reply r) ''server_now'' = Some (JNum now) \<and>
           payload (reply r) ''stale_guard'' = Some (JBool True) \<and>
           (\<forall>k. k \<notin> {''item'', ''is_playing'', ''progress_ms'', ''timestamp'', ''accepted_at'',
                    ''source_status'', ''server_now'', ''stale_guard''} \<longrightarrow>
                payload (reply r) k = None)"
proof -
  have e: "now_playing conv st q now up =
           Inr \<lparr> reply = respond 200 ((entry_obj l)(''server_now'' \<mapsto> JNum now,
                                          ''stale_guard'' \<mapsto> JBool True)),
                 lastByToken = st, upstream_called = True \<rparr>"
    using assms by (simp add: now_playing_stable stable_mode_sample stale_def)
  show ?thesis
    by (simp add: e respond_def entry_obj_members entry_obj_others)
qed

text \<open>
  The instance of the specification: stored timestamp 100000, sample timestamp 98500. The
  sample names another track with a progress of 500 ms, which the early-switch guard would
  suppress; the payload is the stored track A with the annotation of the stale guard.
\<close>

theorem stale_guard_rejects_witness:
  "\<exists>r. now_playing no_conv [''t'' \<mapsto> held (track ''A'' 200000) 100000 100000 5000]
         (stable_q ''t'') 6000 (upstream_200 (playing (track ''B'' 180000) 500 98500)) = Inr r \<and>
       http_status (reply r) = 200 \<and>
       lastByToken r = [''t'' \<mapsto> held (track ''A'' 200000) 100000 100000 5000] \<and>
       payload (reply r) ''item'' = Some (JObj [(''id'', JStr ''A''), (''duration_ms'', JNum 200000)]) \<and>
       payload (reply r) ''is_playing'' = Some (JBool True) \<and>
       payload (reply r) ''progress_ms'' = Some (JNum 100000) \<and>
       payload (reply r) ''timestamp'' = Some (JNum 100000) \<and>
       payload (reply r) ''accepted_at'' = Some (JNum 5000) \<and>
       payload (reply r) ''source_status'' = Some (JNum 200) \<and>
       payload (reply r) ''server_now'' = Some (JNum 6000) \<and>
       payload (reply r) ''stale_guard'' = Some (JBool True) \<and>
       payload (reply r) ''early_switch_suppressed'' = None"
proof -
  have h: "access_token (stable_q ''t'') = Some ''t''" "''t'' \<noteq> []"
    "stable (stable_q ''t'') = Some ''1''"
    "\<not> error (upstream_200 (playing (track ''B'' 180000) 500 98500))"
    "status_of (upstream_200 (playing (track ''B'' 180000) 500 98500)) = 200"
    "typeof_object (body (upstream_200 (playing (track ''B'' 180000) 500 98500)))"
    "normalize (body (upstream_200 (playing (track ''B'' 180000) 500 98500))) 6000 =
       Inr (sample_of (playing (track ''B'' 180000) 500 98500) 6000)"
    "[''t'' \<mapsto> held (track ''A'' 200000) 100000 100000 5000] ''t'' =
       Some (held (track ''A'' 200000) 100000 100000 5000)"
    "timestamp (sample_of (playing (track ''B'' 180000) 500 98500) 6000) + 1000 <
       timestamp (held (track ''A'' 200000) 100000 100000 5000)"
    by (simp_all add: fixtures)
  from stale_guard_rejects [of "stable_q ''t''" "''t''"
      "upstream_200 (playing (track ''B'' 180000) 500 98500)" 6000
      "sample_of (playing (track ''B'' 180000) 500 98500) 6000"
      "[''t'' \<mapsto> held (track ''A'' 200000) 100000 100000 5000]"
      "held (track ''A'' 200000) 100000 100000 5000" no_conv, OF h]
  obtain r where r:
    "now_playing no_conv [''t'' \<mapsto> held (track ''A'' 200000) 100000 100000 5000]
         (stable_q ''t'') 6000 (upstream_200 (playing (track ''B'' 180000) 500 98500)) = Inr r"
    "http_status (reply r) = 200"
    "lastByToken r = [''t'' \<mapsto> held (track ''A'' 200000) 100000 100000 5000]"
    "payload (reply r) ''item'' = Some (item (held (track ''A'' 200000) 100000 100000 5000))"
    "payload (reply r) ''is_playing'' = Some (JBool (is_playing (held (track ''A'' 200000) 100000 100000 5000)))"
    "payload (reply r) ''progress_ms'' = Some (JNum (progress_ms (held (track ''A'' 200000) 100000 100000 5000)))"
    "payload (reply r) ''timestamp'' = Some (JNum (timestamp (held (track ''A'' 200000) 100000 100000 5000)))"
    "payload (reply r) ''accepted_at'' = Some (JNum (accepted_at (held (track ''A'' 200000) 100000 100000 5000)))"
    "payload (reply r) ''source_status'' = Some (JNum (of_int (source_status (held (track ''A'' 200000) 100000 100000 5000))))"
    "payload (reply r) ''server_now'' = Some (JNum 6000)"
    "payload (reply r) ''stale_guard'' = Some (JBool True)"
    "\<forall>k. k \<notin> {''item'', ''is_playing'', ''progress_ms'', ''timestamp'', ''accepted_at'',
                    ''source_status'', ''server_now'', ''stale_guard''} \<longrightarrow>
                payload (reply r) k = None"
    by blast
  have n: "payload (reply r) ''early_switch_suppressed'' = None"
    using r(12) [rule_format, of "''early_switch_suppressed''"] by simp
  show ?thesis
    using r(1-11) n by (intro exI [of _ r]) (simp add: held_def track_def)
qed

section \<open>The early-switch guard\<close>

text \<open>
  C1, as the code has it: in stable mode, for a sample \<open>s\<close> that Guard 1 lets through
  (\<open>timestamp s + 1000 \<ge> timestamp l\<close>), when the stored state
  \<open>l\<close> and the sample both have a track (a truthy \<^verbatim>\<open>item\<close>) and the two
  \<^verbatim>\<open>item.id\<close> differ, the reply is the suppressed one (the fields of \<open>l\<close>, the new
  \<^verbatim>\<open>server_now\<close>, \<^verbatim>\<open>early_switch_suppressed: true\<close>, store not written) if and only
  if not nearEnd and newIsYoung; otherwise the sample is accepted and stored. Here nearEnd
  is: the duration \<open>d\<close> of the stored track is positive and
  \<open>min (progress_ms l + (now - accepted_at l)) d / d \<ge> 0.92\<close> when \<open>l\<close> is playing,
  \<open>progress_ms l / d \<ge> 0.92\<close> when it is paused; newIsYoung is \<open>progress_ms s < 1200\<close>.
  The duration \<open>d\<close> is \<^verbatim>\<open>Number(last.item.duration_ms) || 0\<close>. The stored
  \<^verbatim>\<open>accepted_at\<close> is a \<^verbatim>\<open>Date.now()\<close>, which is not 0.
\<close>

theorem early_switch_rule:
  assumes "access_token q = Some tok" and "tok \<noteq> []" and "stable q = Some ''1''"
    and "\<not> error up" and "status_of up = 200" and "typeof_object (body up)"
    and "normalize (body up) now = Inr s"
    and "st tok = Some l"
    and "\<not> timestamp s + 1000 < timestamp l"
    and "truthy (Some (item l))" and "truthy (Some (item s))"
    and "strict_neq (js_prop (item l) ''id'') (js_prop (item s) ''id'')"
    and "accepted_at l \<noteq> 0"
  shows "\<exists>r. now_playing conv st q now up = Inr r \<and>
           ((payload (reply r) ''early_switch_suppressed'' = Some (JBool True)) =
            (\<not> (prevDuration conv l > 0 \<and>
                 (if is_playing l
                  then min (progress_ms l + (now - accepted_at l)) (prevDuration conv l)
                  else progress_ms l) / prevDuration conv l \<ge> 92 / 100) \<and>
             progress_ms s < 1200)) \<and>
           (payload (reply r) ''early_switch_suppressed'' = Some (JBool True) \<longrightarrow>
              r = \<lparr> reply = respond 200 ((entry_obj l)(''server_now'' \<mapsto> JNum now,
                                          ''early_switch_suppressed'' \<mapsto> JBool True)),
                    lastByToken = st, upstream_called = True \<rparr>) \<and>
           (payload (reply r) ''early_switch_suppressed'' \<noteq> Some (JBool True) \<longrightarrow>
              r = \<lparr> reply = respond 200 (entry_obj (accepted s now)),
                    lastByToken = st(tok \<mapsto> accepted s now), upstream_called = True \<rparr>)"
proof -
  have tc: "track_changed (Some l) s"
    using assms by (simp add: track_changed_def)
  have es: "early_switch conv (Some l) s now =
              (\<not> (prevDuration conv l > 0 \<and>
                 (if is_playing l
                  then min (progress_ms l + (now - accepted_at l)) (prevDuration conv l)
                  else progress_ms l) / prevDuration conv l \<ge> 92 / 100) \<and>
               progress_ms s < 1200)"
    using tc assms(13) by (simp add: early_switch_def nearEnd_eq newIsYoung_def)
  have ns: "\<not> stale (Some l) s" using assms(9) by (simp add: stale_def)
  show ?thesis
  proof (cases "early_switch conv (Some l) s now")
    case True
    then show ?thesis
      using assms(1-8) ns es
      by (simp add: now_playing_stable stable_mode_sample respond_def)
  next
    case False
    then show ?thesis
      using assms(1-8) ns es
      by (simp add: now_playing_stable stable_mode_sample respond_def entry_obj_no_flag)
  qed
qed

text \<open>
  The two instances of the specification, with a stored track of 200000 ms that is
  playing and a sample of another track at 500 ms: stored at 50 percent the switch is
  suppressed, stored at 92.5 percent it is accepted.
\<close>

theorem early_switch_rule_witness:
  "now_playing no_conv [''t'' \<mapsto> held (track ''A'' 200000) 100000 5000 5000]
       (stable_q ''t'') 5000 (upstream_200 (playing (track ''B'' 180000) 500 6000)) =
     Inr \<lparr> reply = respond 200
             ((entry_obj (held (track ''A'' 200000) 100000 5000 5000))
                (''server_now'' \<mapsto> JNum 5000, ''early_switch_suppressed'' \<mapsto> JBool True)),
           lastByToken = [''t'' \<mapsto> held (track ''A'' 200000) 100000 5000 5000],
           upstream_called = True \<rparr> \<and>
   now_playing no_conv [''t'' \<mapsto> held (track ''A'' 200000) 185000 5000 5000]
       (stable_q ''t'') 5000 (upstream_200 (playing (track ''B'' 180000) 500 6000)) =
     Inr \<lparr> reply = respond 200
             (entry_obj (accepted (sample_of (playing (track ''B'' 180000) 500 6000) 5000) 5000)),
           lastByToken = [''t'' \<mapsto> accepted (sample_of (playing (track ''B'' 180000) 500 6000) 5000) 5000],
           upstream_called = True \<rparr>"
  using early_switch_rule [of "stable_q ''t''" "''t''"
      "upstream_200 (playing (track ''B'' 180000) 500 6000)" 5000
      "sample_of (playing (track ''B'' 180000) 500 6000) 5000"
      "[''t'' \<mapsto> held (track ''A'' 200000) 100000 5000 5000]"
      "held (track ''A'' 200000) 100000 5000 5000" no_conv]
    early_switch_rule [of "stable_q ''t''" "''t''"
      "upstream_200 (playing (track ''B'' 180000) 500 6000)" 5000
      "sample_of (playing (track ''B'' 180000) 500 6000) 5000"
      "[''t'' \<mapsto> held (track ''A'' 200000) 185000 5000 5000]"
      "held (track ''A'' 200000) 185000 5000 5000" no_conv]
  by (auto simp add: fixtures)


text \<open>
  C1 as it is stated fails for a sample that Guard 1 rejects: with the stored track at 50
  percent and a sample of another track at 500 ms whose timestamp is 1500 ms behind the
  stored one, not nearEnd and newIsYoung hold, and the reply is annotated
  \<^verbatim>\<open>stale_guard\<close>, not \<^verbatim>\<open>early_switch_suppressed\<close>.
\<close>

theorem stale_before_early_switch_counterexample:
  "now_playing no_conv [''t'' \<mapsto> held (track ''A'' 200000) 100000 100000 5000]
       (stable_q ''t'') 6000 (upstream_200 (playing (track ''B'' 180000) 500 98500)) =
     Inr \<lparr> reply = respond 200
             ((entry_obj (held (track ''A'' 200000) 100000 100000 5000))
                (''server_now'' \<mapsto> JNum 6000, ''stale_guard'' \<mapsto> JBool True)),
           lastByToken = [''t'' \<mapsto> held (track ''A'' 200000) 100000 100000 5000],
           upstream_called = True \<rparr> \<and>
   ((entry_obj (held (track ''A'' 200000) 100000 100000 5000))
      (''server_now'' \<mapsto> JNum 6000, ''stale_guard'' \<mapsto> JBool True))
      ''early_switch_suppressed'' = None \<and>
   track_changed (Some (held (track ''A'' 200000) 100000 100000 5000))
     (sample_of (playing (track ''B'' 180000) 500 98500) 6000) \<and>
   \<not> nearEnd no_conv (held (track ''A'' 200000) 100000 100000 5000) 6000 \<and>
   newIsYoung (sample_of (playing (track ''B'' 180000) 500 98500) 6000)"
  by (simp add: now_playing_def stable_mode_def stale_def track_changed_def nearEnd_def
      estLocal_def elapsed_def newIsYoung_def entry_obj_def fixtures)

text \<open>
  C5, as the code has it. When the stored track has no \<^verbatim>\<open>duration_ms\<close>, or a
  \<^verbatim>\<open>duration_ms\<close> of 0, nearEnd is false whatever the progress and the time. A sample
  that Guard 1 lets through and that names another track is therefore suppressed when its
  progress is under 1200 ms, and accepted when it is 1200 ms or more.
\<close>

theorem no_duration_switch:
  assumes "access_token q = Some tok" and "tok \<noteq> []" and "stable q = Some ''1''"
    and "\<not> error up" and "status_of up = 200" and "typeof_object (body up)"
    and "normalize (body up) now = Inr s"
    and "st tok = Some l"
    and "\<not> timestamp s + 1000 < timestamp l"
    and "truthy (Some (item l))" and "truthy (Some (item s))"
    and "strict_neq (js_prop (item l) ''id'') (js_prop (item s) ''id'')"
    and "js_prop (item l) ''duration_ms'' = None \<or> js_prop (item l) ''duration_ms'' = Some (JNum 0)"
  shows "\<not> nearEnd conv l now \<and>
         (\<exists>r. now_playing conv st q now up = Inr r \<and>
            (progress_ms s < 1200 \<longrightarrow>
               r = \<lparr> reply = respond 200 ((entry_obj l)(''server_now'' \<mapsto> JNum now,
                                          ''early_switch_suppressed'' \<mapsto> JBool True)),
                     lastByToken = st, upstream_called = True \<rparr>) \<and>
            (\<not> progress_ms s < 1200 \<longrightarrow>
               r = \<lparr> reply = respond 200 (entry_obj (accepted s now)),
                     lastByToken = st(tok \<mapsto> accepted s now), upstream_called = True \<rparr>))"
proof -
  have d: "prevDuration conv l = 0"
    using assms(13) by (auto simp add: prevDuration_def)
  then have ne: "\<not> nearEnd conv l now" by (simp add: nearEnd_def)
  have es: "early_switch conv (Some l) s now = (progress_ms s < 1200)"
    using assms(10-12) ne by (simp add: early_switch_def track_changed_def newIsYoung_def)
  have ns: "\<not> stale (Some l) s" using assms(9) by (simp add: stale_def)
  show ?thesis
    using assms(1-8) ns es ne
    by (simp add: now_playing_stable stable_mode_sample)
qed

text \<open>A stored track with no duration and a sample of another track at 1500 ms: accepted.\<close>

theorem no_duration_switch_witness:
  "\<not> nearEnd no_conv (held (JObj [(''id'', JStr ''A'')]) 100000 5000 5000) 6000 \<and>
   now_playing no_conv [''t'' \<mapsto> held (JObj [(''id'', JStr ''A'')]) 100000 5000 5000]
       (stable_q ''t'') 6000 (upstream_200 (playing (track ''B'' 180000) 1500 6000)) =
     Inr \<lparr> reply = respond 200
             (entry_obj (held (track ''B'' 180000) 1500 6000 6000)),
           lastByToken = [''t'' \<mapsto> held (track ''B'' 180000) 1500 6000 6000],
           upstream_called = True \<rparr>"
  using no_duration_switch [of "stable_q ''t''" "''t''"
      "upstream_200 (playing (track ''B'' 180000) 1500 6000)" 6000
      "sample_of (playing (track ''B'' 180000) 1500 6000) 6000"
      "[''t'' \<mapsto> held (JObj [(''id'', JStr ''A'')]) 100000 5000 5000]"
      "held (JObj [(''id'', JStr ''A'')]) 100000 5000 5000" no_conv]
  by (auto simp add: fixtures accepted_def)

text \<open>
  C5 as it is stated fails: the same stored track and a sample of another track at 500 ms
  give the suppressed reply, and the store keeps the stored track.
\<close>

theorem no_duration_switch_counterexample:
  "now_playing no_conv [''t'' \<mapsto> held (JObj [(''id'', JStr ''A'')]) 100000 5000 5000]
       (stable_q ''t'') 6000 (upstream_200 (playing (track ''B'' 180000) 500 6000)) =
     Inr \<lparr> reply = respond 200
             ((entry_obj (held (JObj [(''id'', JStr ''A'')]) 100000 5000 5000))
                (''server_now'' \<mapsto> JNum 6000, ''early_switch_suppressed'' \<mapsto> JBool True)),
           lastByToken = [''t'' \<mapsto> held (JObj [(''id'', JStr ''A'')]) 100000 5000 5000],
           upstream_called = True \<rparr>"
  by (simp add: now_playing_def stable_mode_def stale_def early_switch_def track_changed_def
        nearEnd_def newIsYoung_def fixtures)

section \<open>Order of the stored timestamps\<close>

text \<open>
  C4, as the code has it. For a request that is not answered 204 by the upstream, and
  for every token \<open>k\<close>: when \<open>s1\<close> is stored for \<open>k\<close> before the request and \<open>s2\<close>
  after it, \<open>timestamp s2 + 1000 \<ge> timestamp s1\<close>; and a sample more than 1000 ms behind
  the stored timestamp is answered by the stale guard, the store left as it was. The write
  of the 204 path (line 146) is not covered: it stores \<^verbatim>\<open>timestamp: server_now\<close> without
  reading the stored state.
\<close>

theorem accept_path_monotonic:
  assumes "now_playing conv st q now up = Inr r"
    and "error up \<or> status_of up \<noteq> 204"
    and "st k = Some s1" and "lastByToken r k = Some s2"
  shows "timestamp s2 + 1000 \<ge> timestamp s1 \<and>
         (\<forall>s. access_token q = Some k \<and> k \<noteq> [] \<and> stable q = Some ''1'' \<and> \<not> error up \<and>
               status_of up = 200 \<and> typeof_object (body up) \<and>
               normalize (body up) now = Inr s \<and> timestamp s + 1000 < timestamp s1 \<longrightarrow>
               lastByToken r = st \<and> payload (reply r) ''stale_guard'' = Some (JBool True))"
proof
  show "timestamp s2 + 1000 \<ge> timestamp s1"
    using now_playing_cases [OF assms(1)] assms(2-4)
    by (auto simp add: stale_def accepted_def split: if_splits)
  show "\<forall>s. access_token q = Some k \<and> k \<noteq> [] \<and> stable q = Some ''1'' \<and> \<not> error up \<and>
               status_of up = 200 \<and> typeof_object (body up) \<and>
               normalize (body up) now = Inr s \<and> timestamp s + 1000 < timestamp s1 \<longrightarrow>
               lastByToken r = st \<and> payload (reply r) ''stale_guard'' = Some (JBool True)"
    using assms(1,3)
    by (auto simp add: now_playing_stable stable_mode_sample stale_def respond_def)
qed

text \<open>A sample 500 ms behind the stored timestamp, of the same track: written.\<close>

theorem accept_path_monotonic_witness:
  "now_playing no_conv [''t'' \<mapsto> held (track ''A'' 200000) 1000 5000 5000]
       (stable_q ''t'') 6000 (upstream_200 (playing (track ''A'' 200000) 2000 4500)) =
     Inr \<lparr> reply = respond 200
             (entry_obj (held (track ''A'' 200000) 2000 4500 6000)),
           lastByToken = [''t'' \<mapsto> held (track ''A'' 200000) 2000 4500 6000],
           upstream_called = True \<rparr> \<and>
   timestamp (held (track ''A'' 200000) 2000 4500 6000) + 1000 \<ge>
     timestamp (held (track ''A'' 200000) 1000 5000 5000)"
proof -
  have e: "now_playing no_conv [''t'' \<mapsto> held (track ''A'' 200000) 1000 5000 5000]
       (stable_q ''t'') 6000 (upstream_200 (playing (track ''A'' 200000) 2000 4500)) =
     Inr \<lparr> reply = respond 200
             (entry_obj (held (track ''A'' 200000) 2000 4500 6000)),
           lastByToken = [''t'' \<mapsto> held (track ''A'' 200000) 2000 4500 6000],
           upstream_called = True \<rparr>"
    by (simp add: now_playing_def stable_mode_def stale_def early_switch_def track_changed_def
        accepted_def fixtures)
  have u: "error (upstream_200 (playing (track ''A'' 200000) 2000 4500)) \<or>
           status_of (upstream_200 (playing (track ''A'' 200000) 2000 4500)) \<noteq> 204"
    by (simp add: fixtures)
  show ?thesis
    using accept_path_monotonic [OF e u, of "''t''" "held (track ''A'' 200000) 1000 5000 5000"
        "held (track ''A'' 200000) 2000 4500 6000"] e
    by simp
qed

text \<open>
  C4 as it is stated fails on the 204 path. A first request at time 1000 stores a sample
  whose upstream timestamp is 9000; a second request at time 2000, answered 204, stores
  the empty sample with timestamp 2000, and \<open>2000 + 1000 < 9000\<close>.
\<close>

theorem no_content_write_counterexample:
  "now_playing no_conv Map.empty (stable_q ''t'') 1000
       (upstream_200 (playing (track ''A'' 200000) 0 9000)) =
     Inr \<lparr> reply = respond 200 (entry_obj (held (track ''A'' 200000) 0 9000 1000)),
           lastByToken = [''t'' \<mapsto> held (track ''A'' 200000) 0 9000 1000],
           upstream_called = True \<rparr> \<and>
   now_playing no_conv [''t'' \<mapsto> held (track ''A'' 200000) 0 9000 1000] (stable_q ''t'') 2000
       upstream_204 =
     Inr \<lparr> reply = respond 200 (nothingPlaying 2000 204),
           lastByToken = [''t'' \<mapsto> nothing_entry 2000 204],
           upstream_called = True \<rparr> \<and>
   \<not> timestamp (nothing_entry 2000 204) + 1000 \<ge> timestamp (held (track ''A'' 200000) 0 9000 1000)"
  by (simp add: now_playing_def stable_mode_def stale_def early_switch_def track_changed_def
        accepted_def nothing_entry_def fixtures)

section \<open>Writes of the store\<close>

text \<open>
  C8, as the code has it. In stable mode the store is written on the 204 path and on the
  accept path only, and only at the token of the request. A reply annotated
  \<^verbatim>\<open>stale_guard\<close> or \<^verbatim>\<open>early_switch_suppressed\<close> leaves the store as it was and is the
  stored state of the token with \<^verbatim>\<open>server_now\<close> set to the time of the request and the
  annotation added. A transport error, and a status other than 200 and 204 or a body that
  is not of type object, leave the store as it was too, and are answered with the empty
  sample (null item, not playing, progress 0), not with the stored state.
\<close>

theorem store_written_on_accept_only:
  assumes "access_token q = Some tok" and "tok \<noteq> []" and "stable q = Some ''1''"
    and "now_playing conv st q now up = Inr r"
  shows
    "(error up \<or> status_of up \<noteq> 204 \<and> (status_of up \<noteq> 200 \<or> \<not> typeof_object (body up)) \<longrightarrow>
        lastByToken r = st \<and> payload (reply r) ''item'' = Some JNull \<and>
        payload (reply r) ''is_playing'' = Some (JBool False) \<and>
        payload (reply r) ''progress_ms'' = Some (JNum 0)) \<and>
     (payload (reply r) ''stale_guard'' = Some (JBool True) \<longrightarrow>
        lastByToken r = st \<and>
        (\<exists>l. st tok = Some l \<and>
           reply r = respond 200 ((entry_obj l)(''server_now'' \<mapsto> JNum now,
                                    ''stale_guard'' \<mapsto> JBool True)))) \<and>
     (payload (reply r) ''early_switch_suppressed'' = Some (JBool True) \<longrightarrow>
        lastByToken r = st \<and>
        (\<exists>l. st tok = Some l \<and>
           reply r = respond 200 ((entry_obj l)(''server_now'' \<mapsto> JNum now,
                                    ''early_switch_suppressed'' \<mapsto> JBool True)))) \<and>
     (lastByToken r \<noteq> st \<longrightarrow>
        \<not> error up \<and> status_of up = 204 \<and> lastByToken r = st(tok \<mapsto> nothing_entry now 204) \<or>
        (\<exists>s. \<not> error up \<and> status_of up = 200 \<and> normalize (body up) now = Inr s \<and>
           lastByToken r = st(tok \<mapsto> accepted s now) \<and>
           reply r = respond 200 (entry_obj (accepted s now))))"
  using stable_mode_replies [OF now_playing_stable_Inr [OF assms]]
  by (elim disjE exE conjE)
     (simp_all add: respond_def nothingPlaying_fields entry_obj_no_flag)

text \<open>
  A stored track A at 50 percent, for a suppressed switch to track B and for a
  transport error.
\<close>

theorem store_written_on_accept_only_witness:
  "now_playing no_conv [''t'' \<mapsto> held (track ''A'' 200000) 100000 5000 5000]
       (stable_q ''t'') 6000 (upstream_200 (playing (track ''B'' 180000) 500 6000)) =
     Inr \<lparr> reply = respond 200
             ((entry_obj (held (track ''A'' 200000) 100000 5000 5000))
                (''server_now'' \<mapsto> JNum 6000, ''early_switch_suppressed'' \<mapsto> JBool True)),
           lastByToken = [''t'' \<mapsto> held (track ''A'' 200000) 100000 5000 5000],
           upstream_called = True \<rparr> \<and>
   now_playing no_conv [''t'' \<mapsto> held (track ''A'' 200000) 100000 5000 5000]
       (stable_q ''t'') 6000 transport_error =
     Inr \<lparr> reply = respond 200 (nothingPlaying 6000 500),
           lastByToken = [''t'' \<mapsto> held (track ''A'' 200000) 100000 5000 5000],
           upstream_called = True \<rparr> \<and>
   nothingPlaying 6000 500 ''item'' = Some JNull"
proof -
  have e1: "now_playing no_conv [''t'' \<mapsto> held (track ''A'' 200000) 100000 5000 5000]
       (stable_q ''t'') 6000 (upstream_200 (playing (track ''B'' 180000) 500 6000)) =
     Inr \<lparr> reply = respond 200
             ((entry_obj (held (track ''A'' 200000) 100000 5000 5000))
                (''server_now'' \<mapsto> JNum 6000, ''early_switch_suppressed'' \<mapsto> JBool True)),
           lastByToken = [''t'' \<mapsto> held (track ''A'' 200000) 100000 5000 5000],
           upstream_called = True \<rparr>"
    by (simp add: now_playing_def stable_mode_def stale_def early_switch_def track_changed_def
        nearEnd_def estLocal_def elapsed_def newIsYoung_def fixtures)
  have e2: "now_playing no_conv [''t'' \<mapsto> held (track ''A'' 200000) 100000 5000 5000]
       (stable_q ''t'') 6000 transport_error =
     Inr \<lparr> reply = respond 200 (nothingPlaying 6000 500),
           lastByToken = [''t'' \<mapsto> held (track ''A'' 200000) 100000 5000 5000],
           upstream_called = True \<rparr>"
    by (simp add: now_playing_def stable_mode_def fixtures)
  have q: "access_token (stable_q ''t'') = Some ''t''" "''t'' \<noteq> []"
    "stable (stable_q ''t'') = Some ''1''"
    by (simp_all add: stable_q_def)
  have "nothingPlaying 6000 500 ''item'' = Some JNull"
    using store_written_on_accept_only [OF q e2, THEN conjunct1]
    by (simp add: transport_error_def respond_def)
  with e1 e2 show ?thesis by blast
qed

text \<open>
  C8 as it is stated fails for the transport error: with track A stored, the reply carries
  a null item and no annotation; it is not the stored state.
\<close>

theorem transport_error_counterexample:
  "now_playing no_conv [''t'' \<mapsto> held (track ''A'' 200000) 100000 5000 5000]
       (stable_q ''t'') 6000 transport_error =
     Inr \<lparr> reply = respond 200 (nothingPlaying 6000 500),
           lastByToken = [''t'' \<mapsto> held (track ''A'' 200000) 100000 5000 5000],
           upstream_called = True \<rparr> \<and>
   nothingPlaying 6000 500 ''item'' = Some JNull \<and>
   entry_obj (held (track ''A'' 200000) 100000 5000 5000) ''item'' = Some (track ''A'' 200000) \<and>
   nothingPlaying 6000 500 ''item'' \<noteq> entry_obj (held (track ''A'' 200000) 100000 5000 5000) ''item''"
  by (simp add: now_playing_def stable_mode_def fixtures nothingPlaying_def entry_obj_def)

text \<open>
  C10: every state the store holds after a request was in it before, under the same
  token, or is stored under the token of the request with \<^verbatim>\<open>accepted_at\<close> the time the
  handler took, and \<^verbatim>\<open>source_status\<close> 204 on the 204 path and 200 on the accept path;
  with 204 the item is null, nothing plays and the progress is 0. So a store whose states
  all carry 200 or 204 stays so.
\<close>

theorem store_shape:
  assumes "now_playing conv st q now up = Inr r"
  shows
    "(\<forall>k e. lastByToken r k = Some e \<longrightarrow>
        st k = Some e \<or>
        access_token q = Some k \<and> accepted_at e = now \<and>
        source_status e = (if status_of up = 204 then 204 else 200) \<and>
        (source_status e = 204 \<longrightarrow> item e = JNull \<and> \<not> is_playing e \<and> progress_ms e = 0)) \<and>
     ((\<forall>k e. st k = Some e \<longrightarrow> source_status e = 200 \<or> source_status e = 204) \<longrightarrow>
      (\<forall>k e. lastByToken r k = Some e \<longrightarrow> source_status e = 200 \<or> source_status e = 204))"
  using now_playing_cases [OF assms]
  by (elim disjE exE conjE)
     (auto simp add: nothing_entry_def accepted_def split: if_splits)

text \<open>The write of the 204 path into the empty store, at time 2000.\<close>

theorem store_shape_witness:
  "now_playing no_conv Map.empty (stable_q ''t'') 2000 upstream_204 =
     Inr \<lparr> reply = respond 200 (nothingPlaying 2000 204),
           lastByToken = [''t'' \<mapsto> nothing_entry 2000 204], upstream_called = True \<rparr> \<and>
   accepted_at (nothing_entry 2000 204) = 2000 \<and>
   source_status (nothing_entry 2000 204) = 204 \<and>
   item (nothing_entry 2000 204) = JNull \<and>
   \<not> is_playing (nothing_entry 2000 204) \<and> progress_ms (nothing_entry 2000 204) = 0"
proof -
  have e1: "now_playing no_conv Map.empty (stable_q ''t'') 2000 upstream_204 =
     Inr \<lparr> reply = respond 200 (nothingPlaying 2000 204),
           lastByToken = [''t'' \<mapsto> nothing_entry 2000 204], upstream_called = True \<rparr>"
    by (simp add: now_playing_def stable_mode_def fixtures)
  have "accepted_at (nothing_entry 2000 204) = 2000 \<and>
        source_status (nothing_entry 2000 204) = 204 \<and>
        item (nothing_entry 2000 204) = JNull \<and>
        \<not> is_playing (nothing_entry 2000 204) \<and> progress_ms (nothing_entry 2000 204) = 0"
    using store_shape [OF e1, THEN conjunct1, rule_format, of "''t''" "nothing_entry 2000 204"]
    by (simp add: upstream_204_def status_of_def)
  with e1 show ?thesis by blast
qed

section \<open>Pass-through mode\<close>

text \<open>
  C7: for every request whose \<^verbatim>\<open>stable\<close> parameter is not \<^verbatim>\<open>'1'\<close>, the handler
  answers and returns the store it was given; with any other store the reply is the same
  and that other store is returned, so the store is neither written nor read. When the
  upstream answers 200 with an object, the payload is the object with \<^verbatim>\<open>server_now\<close>
  set to the time of the request: every other member is the upstream's.
\<close>

theorem passthrough_bypass:
  assumes "stable q \<noteq> Some ''1''"
  shows
    "(\<exists>r. now_playing conv st q now up = Inr r \<and> lastByToken r = st) \<and>
     (\<forall>st'. \<exists>r r'. now_playing conv st q now up = Inr r \<and>
         now_playing conv st' q now up = Inr r' \<and>
         reply r' = reply r \<and> upstream_called r' = upstream_called r \<and> lastByToken r' = st') \<and>
     (\<forall>tok kvs. access_token q = Some tok \<and> tok \<noteq> [] \<and> \<not> error up \<and> status_of up = 200 \<and>
         body up = Some (JObj kvs) \<longrightarrow>
         now_playing conv st q now up =
           Inr \<lparr> reply = respond 200 ((map_of kvs)(''server_now'' \<mapsto> JNum now)),
                 lastByToken = st, upstream_called = True \<rparr> \<and>
         (\<forall>k. k \<noteq> ''server_now'' \<longrightarrow>
            ((map_of kvs)(''server_now'' \<mapsto> JNum now)) k = map_of kvs k))"
proof (cases "access_token q = None \<or> access_token q = Some []")
  case True
  then show ?thesis
    by (auto simp add: now_playing_missing)
next
  case False
  then obtain tok where t: "access_token q = Some tok" "tok \<noteq> []" by auto
  show ?thesis
    using assms t
    by (auto simp add: now_playing_passthrough passthrough_def)
qed

text \<open>
  Two polls in a row, of track A at 300 ms and of track B at 400 ms, the second with a
  store that holds track A: both bodies come back with \<^verbatim>\<open>server_now\<close> added, and the
  store is as it was.
\<close>

theorem passthrough_bypass_witness:
  "now_playing no_conv Map.empty (plain_q ''t'') 5000
       (upstream_200 (playing (track ''A'' 200000) 300 5000)) =
     Inr \<lparr> reply = respond 200
             ((map_of [(''item'', track ''A'' 200000), (''is_playing'', JBool True),
                       (''progress_ms'', JNum 300), (''timestamp'', JNum 5000)])
                (''server_now'' \<mapsto> JNum 5000)),
           lastByToken = Map.empty, upstream_called = True \<rparr> \<and>
   now_playing no_conv
       [''t'' \<mapsto> held (track ''A'' 200000) 300 5000 5000]
       (plain_q ''t'') 6000
       (upstream_200 (playing (track ''B'' 180000) 400 6000)) =
     Inr \<lparr> reply = respond 200
             ((map_of [(''item'', track ''B'' 180000), (''is_playing'', JBool True),
                       (''progress_ms'', JNum 400), (''timestamp'', JNum 6000)])
                (''server_now'' \<mapsto> JNum 6000)),
           lastByToken = [''t'' \<mapsto> held (track ''A'' 200000) 300 5000 5000], upstream_called = True \<rparr>"
proof -
  have q: "stable (plain_q ''t'') \<noteq> Some ''1''" by (simp add: plain_q_def)
  note a = passthrough_bypass [OF q, of no_conv Map.empty 5000
      "upstream_200 (playing (track ''A'' 200000) 300 5000)",
      THEN conjunct2, THEN conjunct2, rule_format,
      of "''t''" "[(''item'', track ''A'' 200000), (''is_playing'', JBool True),
                       (''progress_ms'', JNum 300), (''timestamp'', JNum 5000)]", THEN conjunct1]
  note b = passthrough_bypass [OF q, of no_conv
      "[''t'' \<mapsto> held (track ''A'' 200000) 300 5000 5000]" 6000
      "upstream_200 (playing (track ''B'' 180000) 400 6000)",
      THEN conjunct2, THEN conjunct2, rule_format,
      of "''t''" "[(''item'', track ''B'' 180000), (''is_playing'', JBool True),
                       (''progress_ms'', JNum 400), (''timestamp'', JNum 6000)]", THEN conjunct1]
  have a': "now_playing no_conv Map.empty (plain_q ''t'') 5000
       (upstream_200 (playing (track ''A'' 200000) 300 5000)) =
     Inr \<lparr> reply = respond 200
             ((map_of [(''item'', track ''A'' 200000), (''is_playing'', JBool True),
                       (''progress_ms'', JNum 300), (''timestamp'', JNum 5000)])
                (''server_now'' \<mapsto> JNum 5000)),
           lastByToken = Map.empty, upstream_called = True \<rparr>"
    by (rule a) (simp add: plain_q_def upstream_200_def status_of_def playing_def)
  have b': "now_playing no_conv
       [''t'' \<mapsto> held (track ''A'' 200000) 300 5000 5000]
       (plain_q ''t'') 6000
       (upstream_200 (playing (track ''B'' 180000) 400 6000)) =
     Inr \<lparr> reply = respond 200
             ((map_of [(''item'', track ''B'' 180000), (''is_playing'', JBool True),
                       (''progress_ms'', JNum 400), (''timestamp'', JNum 6000)])
                (''server_now'' \<mapsto> JNum 6000)),
           lastByToken = [''t'' \<mapsto> held (track ''A'' 200000) 300 5000 5000], upstream_called = True \<rparr>"
    by (rule b) (simp add: plain_q_def upstream_200_def status_of_def playing_def)
  from a' b' show ?thesis by (rule conjI)
qed

section \<open>Status codes\<close>

text \<open>
  C3, as the code has it. Without an access token (none, or an empty one: the test is
  \<^verbatim>\<open>!access_token\<close>) the answer is 400 with \<^verbatim>\<open>{ error: 'Missing access token' }\<close>,
  whatever the upstream would say, and the upstream is not called. Every answer is 400 or
  200, 400 only without a token, and the upstream is called exactly for the answers 200.
  With a token, a transport error, a status other than 200, and a body whose
  \<^verbatim>\<open>typeof\<close> is not \<^verbatim>\<open>'object'\<close> are answered 200 with the empty sample and the
  upstream status (500 when there is none) under \<^verbatim>\<open>source_status\<close>.
\<close>

theorem status_code_policy:
  "(access_token q = None \<or> access_token q = Some [] \<longrightarrow>
      (\<forall>up'. now_playing conv st q now up' =
         Inr \<lparr> reply = respond 400 [''error'' \<mapsto> JStr ''Missing access token''],
               lastByToken = st, upstream_called = False \<rparr>)) \<and>
   (\<forall>r. now_playing conv st q now up = Inr r \<longrightarrow>
      (http_status (reply r) = 400) = (access_token q = None \<or> access_token q = Some []) \<and>
      (http_status (reply r) = 400 \<or> http_status (reply r) = 200) \<and>
      upstream_called r = (http_status (reply r) = 200)) \<and>
   (access_token q \<noteq> None \<and> access_token q \<noteq> Some [] \<and>
    (error up \<or> status_of up \<noteq> 200 \<or> \<not> typeof_object (body up)) \<longrightarrow>
      (\<exists>r. now_playing conv st q now up = Inr r \<and> http_status (reply r) = 200 \<and>
         payload (reply r) ''item'' = Some JNull \<and>
         payload (reply r) ''is_playing'' = Some (JBool False) \<and>
         payload (reply r) ''progress_ms'' = Some (JNum 0) \<and>
         payload (reply r) ''source_status'' = Some (JNum (of_int (status_of up)))))"
proof (intro conjI impI allI)
  fix up' assume "access_token q = None \<or> access_token q = Some []"
  then show "now_playing conv st q now up' =
         Inr \<lparr> reply = respond 400 [''error'' \<mapsto> JStr ''Missing access token''],
               lastByToken = st, upstream_called = False \<rparr>"
    by (rule now_playing_missing)
next
  fix r assume r: "now_playing conv st q now up = Inr r"
  show "(http_status (reply r) = 400) = (access_token q = None \<or> access_token q = Some [])"
    using r
    by (cases "access_token q")
       (auto simp add: now_playing_def respond_def passthrough_status
          split: if_splits sum.splits dest: stable_mode_status)
  show "http_status (reply r) = 400 \<or> http_status (reply r) = 200"
    using r
    by (cases "access_token q")
       (auto simp add: now_playing_def respond_def passthrough_status
          split: if_splits sum.splits dest: stable_mode_status)
  show "upstream_called r = (http_status (reply r) = 200)"
    using r
    by (cases "access_token q")
       (auto simp add: now_playing_def respond_def passthrough_status
          split: if_splits sum.splits dest: stable_mode_status)
next
  assume a: "access_token q \<noteq> None \<and> access_token q \<noteq> Some [] \<and>
    (error up \<or> status_of up \<noteq> 200 \<or> \<not> typeof_object (body up))"
  then obtain tok where t: "access_token q = Some tok" "tok \<noteq> []" by auto
  show "\<exists>r. now_playing conv st q now up = Inr r \<and> http_status (reply r) = 200 \<and>
         payload (reply r) ''item'' = Some JNull \<and>
         payload (reply r) ''is_playing'' = Some (JBool False) \<and>
         payload (reply r) ''progress_ms'' = Some (JNum 0) \<and>
         payload (reply r) ''source_status'' = Some (JNum (of_int (status_of up)))"
  proof (cases "stable q = Some ''1''")
    case True
    with a t show ?thesis
      by (auto simp add: now_playing_stable stable_mode_def Let_def respond_def
          nothingPlaying_fields)
  next
    case False
    with a t show ?thesis
      by (auto simp add: now_playing_passthrough passthrough_def Let_def respond_def
          nothingPlaying_fields)
  qed
qed

text \<open>A request with no token, and an upstream status 503 in stable mode.\<close>

theorem status_code_policy_witness:
  "now_playing no_conv Map.empty \<lparr> access_token = None, stable = Some ''1'' \<rparr> 5000
       upstream_204 =
     Inr \<lparr> reply = respond 400 [''error'' \<mapsto> JStr ''Missing access token''],
           lastByToken = Map.empty, upstream_called = False \<rparr> \<and>
   (\<exists>r. now_playing no_conv Map.empty (stable_q ''t'') 5000
            \<lparr> error = False, response = Some 503, body = None \<rparr> = Inr r \<and>
        http_status (reply r) = 200 \<and>
        payload (reply r) ''item'' = Some JNull \<and>
        payload (reply r) ''is_playing'' = Some (JBool False) \<and>
        payload (reply r) ''progress_ms'' = Some (JNum 0) \<and>
        payload (reply r) ''source_status'' = Some (JNum 503))"
proof
  show "now_playing no_conv Map.empty \<lparr> access_token = None, stable = Some ''1'' \<rparr> 5000
       upstream_204 =
     Inr \<lparr> reply = respond 400 [''error'' \<mapsto> JStr ''Missing access token''],
           lastByToken = Map.empty, upstream_called = False \<rparr>"
    using status_code_policy [of "\<lparr> access_token = None, stable = Some ''1'' \<rparr>"
        no_conv Map.empty 5000 upstream_204, THEN conjunct1]
    by simp
  show "\<exists>r. now_playing no_conv Map.empty (stable_q ''t'') 5000
            \<lparr> error = False, response = Some 503, body = None \<rparr> = Inr r \<and>
        http_status (reply r) = 200 \<and>
        payload (reply r) ''item'' = Some JNull \<and>
        payload (reply r) ''is_playing'' = Some (JBool False) \<and>
        payload (reply r) ''progress_ms'' = Some (JNum 0) \<and>
        payload (reply r) ''source_status'' = Some (JNum 503)"
    using status_code_policy [of "stable_q ''t''" no_conv Map.empty 5000
        "\<lparr> error = False, response = Some 503, body = None \<rparr>",
        THEN conjunct2, THEN conjunct2]
    by (simp add: stable_q_def status_of_def)
qed

text \<open>
  C3 as it is stated fails for \<^verbatim>\<open>?access_token=\<close>: the parameter is there, empty, and
  the answer is 400.
\<close>

theorem empty_token_counterexample:
  "now_playing no_conv Map.empty \<lparr> access_token = Some [], stable = None \<rparr> 5000
       (upstream_200 (playing (track ''A'' 200000) 300 5000)) =
     Inr \<lparr> reply = respond 400 [''error'' \<mapsto> JStr ''Missing access token''],
           lastByToken = Map.empty, upstream_called = False \<rparr> \<and>
   http_status (respond 400 [''error'' \<mapsto> JStr ''Missing access token'']) = 400 \<and>
   access_token \<lparr> access_token = Some [], stable = None \<rparr> \<noteq> None"
  by (simp add: now_playing_def respond_def)

text \<open>
  The body \<^verbatim>\<open>null\<close> is outside the policy above. Its \<^verbatim>\<open>typeof\<close> is \<^verbatim>\<open>'object'\<close>,
  so the test of line 150 lets it through, and in stable mode line 155 reads
  \<^verbatim>\<open>body.item\<close> of \<^verbatim>\<open>null\<close>: the callback throws and no answer is sent. In
  pass-through mode the answer is 200 with \<^verbatim>\<open>server_now\<close> alone.
\<close>

lemma null_body_throws:
  "now_playing conv st \<lparr> access_token = Some ''t'', stable = Some ''1'' \<rparr> now
     \<lparr> error = False, response = Some 200, body = Some JNull \<rparr> = Inl TypeError"
  by (simp add: now_playing_def stable_mode_def status_of_def)

lemma null_body_passthrough:
  "now_playing conv st \<lparr> access_token = Some ''t'', stable = None \<rparr> now
     \<lparr> error = False, response = Some 200, body = Some JNull \<rparr> =
   Inr \<lparr> reply = respond 200 [''server_now'' \<mapsto> JNum now], lastByToken = st,
         upstream_called = True \<rparr>"
  by (simp add: now_playing_def passthrough_def status_of_def)

section \<open>The return path of /login\<close>

text \<open>
  C9, as the code has it. The \<^verbatim>\<open>/login\<close> of \<^verbatim>\<open>server.js\<close> does not read
  \<^verbatim>\<open>return\<close>: the state of its redirect is the nonce. The \<^verbatim>\<open>/login\<close> that reads it
  (\<^verbatim>\<open>src/unnamed/part_001\<close>, line 168) puts the nonce and a path in the state. The path
  starts with one slash, not with two; it is the value given when that is a string that
  starts with one slash and not with two; it is \<^verbatim>\<open>/spotify-overlay\<close> when the value is
  not a string that starts with a slash (an absolute URL, an array, nothing), and when it
  starts with two slashes.
\<close>

theorem login_return_path:
  "state (login ev nonce r) = Nonce nonce \<and>
   (\<exists>ret. state (login_return ev nonce r) = NonceRet nonce ret \<and>
      startsWith ret ''/'' \<and> \<not> startsWith ret ''//'' \<and>
      (\<forall>s. r = Some (JStr s) \<and> startsWith s ''/'' \<and> \<not> startsWith s ''//'' \<longrightarrow> ret = s) \<and>
      (\<not> (\<exists>s. r = Some (JStr s) \<and> startsWith s ''/'') \<longrightarrow> ret = ''/spotify-overlay'') \<and>
      (\<forall>s. r = Some (JStr s) \<and> startsWith s ''//'' \<longrightarrow> ret = ''/spotify-overlay''))"
proof (cases "\<exists>s. r = Some (JStr s)")
  case True
  then obtain s where s: "r = Some (JStr s)" by blast
  show ?thesis
  proof (cases "s = []")
    case True
    with s show ?thesis
      by (simp add: login_def login_return_def sanitize_string startsWith_fallback)
         (simp add: startsWith_def)
  next
    case False
    with s show ?thesis
      by (auto simp add: login_def login_return_def sanitize_string startsWith_fallback)
  qed
next
  case False
  then have o: "\<forall>s. r \<noteq> Some (JStr s)" by blast
  have "sanitizeReturnPath (if truthy r then r else Some (JStr ''/spotify-overlay'')) =
          ''/spotify-overlay''"
    using o by (simp add: sanitize_other sanitize_string startsWith_fallback)
  with o show ?thesis
    by (simp add: login_def login_return_def startsWith_fallback)
qed

text \<open>An absolute URL, a protocol-relative one, an array, and a path of the site.\<close>

theorem login_return_path_witness:
  "state (login_return \<lparr> SPOTIFY_CLIENT_ID = ''id'', REDIRECT_URI = ''https://backend/callback'' \<rparr>
            ''abcdefghijklmnop'' (Some (JStr ''https://evil.example/x''))) =
     NonceRet ''abcdefghijklmnop'' ''/spotify-overlay'' \<and>
   state (login_return \<lparr> SPOTIFY_CLIENT_ID = ''id'', REDIRECT_URI = ''https://backend/callback'' \<rparr>
            ''abcdefghijklmnop'' (Some (JStr ''//evil.example/x''))) =
     NonceRet ''abcdefghijklmnop'' ''/spotify-overlay'' \<and>
   state (login_return \<lparr> SPOTIFY_CLIENT_ID = ''id'', REDIRECT_URI = ''https://backend/callback'' \<rparr>
            ''abcdefghijklmnop'' (Some (JArr [JStr ''/a'', JStr ''/b'']))) =
     NonceRet ''abcdefghijklmnop'' ''/spotify-overlay'' \<and>
   state (login_return \<lparr> SPOTIFY_CLIENT_ID = ''id'', REDIRECT_URI = ''https://backend/callback'' \<rparr>
            ''abcdefghijklmnop'' (Some (JStr ''/dashboard''))) =
     NonceRet ''abcdefghijklmnop'' ''/dashboard''"
  using
    login_return_path [of "\<lparr> SPOTIFY_CLIENT_ID = ''id'', REDIRECT_URI = ''https://backend/callback'' \<rparr>"
      "''abcdefghijklmnop''" "Some (JStr ''https://evil.example/x'')"]
    login_return_path [of "\<lparr> SPOTIFY_CLIENT_ID = ''id'', REDIRECT_URI = ''https://backend/callback'' \<rparr>"
      "''abcdefghijklmnop''" "Some (JStr ''//evil.example/x'')"]
    login_return_path [of "\<lparr> SPOTIFY_CLIENT_ID = ''id'', REDIRECT_URI = ''https://backend/callback'' \<rparr>"
      "''abcdefghijklmnop''" "Some (JArr [JStr ''/a'', JStr ''/b''])"]
    login_return_path [of "\<lparr> SPOTIFY_CLIENT_ID = ''id'', REDIRECT_URI = ''https://backend/callback'' \<rparr>"
      "''abcdefghijklmnop''" "Some (JStr ''/dashboard'')"]
  by (auto simp add: startsWith_def)

text \<open>
  C9 as it is stated fails on \<^verbatim>\<open>server.js\<close>: with \<^verbatim>\<open>?return=/dashboard\<close> the state
  of the redirect is the nonce, with no return path in it.
\<close>

theorem login_ignores_return_counterexample:
  "login \<lparr> SPOTIFY_CLIENT_ID = ''id'', REDIRECT_URI = ''https://backend/callback'' \<rparr>
       ''abcdefghijklmnop'' (Some (JStr ''/dashboard'')) =
     \<lparr> response_type = ''code'', client_id = ''id'',
       scope = ''user-read-playback-state user-read-currently-playing'',
       redirect_uri = ''https://backend/callback'',
       state = Nonce ''abcdefghijklmnop'', show_dialog = True \<rparr> \<and>
   Nonce ''abcdefghijklmnop'' \<noteq> NonceRet ''abcdefghijklmnop'' ''/dashboard''"
  by (simp add: login_def)

end
